theory Spec2Isabelle
  imports Complex_Main "HOL-Library.AList"
begin

section \<open>The flow simulation of \<^verbatim>\<open>assets/js/flow-simulation.js\<close>\<close>

text \<open>
  A shallow embedding of the class \<^verbatim>\<open>FlowSimulation\<close>. JavaScript numbers are modelled
  by the reals: the arithmetic of the source is read as exact arithmetic on finite
  numbers, so rounding, the infinities and NaN are not part of this development. The
  phase labels are the three strings that the \<^verbatim>\<open>switch\<close> of \<^verbatim>\<open>setPhaseProperties\<close>
  handles. \<^verbatim>\<open>Math.random()\<close> is a sequence \<open>rand\<close> of reals that the host supplies
  together with the number \<open>drawn\<close> of values already handed out; the range
  \<open>[0, 1)\<close> of the draws is a hypothesis wherever a result depends on it.
  \<^verbatim>\<open>render\<close> and \<^verbatim>\<open>drawFlowField\<close> only read the simulation and paint on the drawing
  context; they write no field of the simulation and are left out. \<^verbatim>\<open>setupControls\<close>
  builds DOM nodes and binds listeners that call the setters, \<^verbatim>\<open>start\<close>, \<^verbatim>\<open>stop\<close> and
  \<^verbatim>\<open>createParticles\<close>, which are modelled.
\<close>

subsection \<open>Data\<close>

datatype phase = Gas | Liquid | Vapor

text \<open>The colour string \<^verbatim>\<open>rgba(r, g, b, a)\<close> that the template literals build.\<close>

datatype color = Rgba nat nat nat real

text \<open>
  The object literal of \<^verbatim>\<open>createParticles\<close> has the fields \<^verbatim>\<open>id\<close> to \<^verbatim>\<open>maxLife\<close>;
  \<^verbatim>\<open>setPhaseProperties\<close> adds \<^verbatim>\<open>color\<close> and \<^verbatim>\<open>buoyancy\<close> to it. The fields
  \<^verbatim>\<open>id\<close>, \<^verbatim>\<open>x\<close>, \<^verbatim>\<open>y\<close> and \<^verbatim>\<open>size\<close> are \<open>pid\<close>, \<open>px\<close>, \<open>py\<close> and \<open>psize\<close> here.
\<close>

record particle_literal =
  pid :: nat
  px :: real
  py :: real
  vx :: real
  vy :: real
  psize :: real
  phase :: phase
  density :: real
  temperature :: real
  life :: real
  maxLife :: real

record particle = particle_literal +
  color :: color
  buoyancy :: real

text \<open>
  The argument \<^verbatim>\<open>options\<close> of the constructor: every key is absent (\<open>None\<close>) or
  present with a value.
\<close>

record options_arg =
  arg_particleCount :: "real option"
  arg_flowSpeed :: "real option"
  arg_turbulence :: "real option"
  arg_phaseTypes :: "phase list option"
  arg_temperature :: "real option"
  arg_pressure :: "real option"

text \<open>\<^verbatim>\<open>this.options\<close>; its key \<^verbatim>\<open>temperature\<close> is \<open>opt_temperature\<close>.\<close>

record options =
  particleCount :: real
  flowSpeed :: real
  turbulence :: real
  phaseTypes :: "phase list"
  opt_temperature :: real
  pressure :: real

text \<open>
  The host element with the two properties the class reads, and the canvas with its
  bitmap dimensions (non-negative integers in the DOM).
\<close>

record container =
  offsetWidth :: nat
  offsetHeight :: nat

record canvas =
  width :: nat
  height :: nat

text \<open>
  The host environment: the values \<^verbatim>\<open>Math.random()\<close> returns, how many of them have
  been drawn, the handles of the animation-frame callbacks that are scheduled (each of
  them is \<^verbatim>\<open>() => this.animate()\<close>), and the next handle to hand out.
\<close>

record host =
  rand :: "nat \<Rightarrow> real"
  drawn :: nat
  pending :: "nat list"
  nextHandle :: nat

record sim = host +
  container :: "container option"
  options :: options
  canvas :: canvas
  particles :: "particle list"
  isRunning :: bool
  animationId :: "nat option"
  time :: nat

datatype error = TypeError string

subsection \<open>Phase styling\<close>

text \<open>
  The two assignments \<^verbatim>\<open>particle.color = c\<close> and \<^verbatim>\<open>particle.buoyancy = b\<close>: they
  set the properties on a particle that has them and add them to the object literal of
  \<^verbatim>\<open>createParticles\<close>, which has not.
\<close>

definition set_color_buoyancy :: "'a particle_literal_scheme \<Rightarrow> color \<Rightarrow> real \<Rightarrow> particle" where
  "set_color_buoyancy p c b =
     particle_literal.extend (particle_literal.truncate p) (particle.fields c b)"

definition setPhaseProperties :: "'a particle_literal_scheme \<Rightarrow> particle" where
  "setPhaseProperties p =
     (case phase p of
        Gas \<Rightarrow>
          set_color_buoyancy (p\<lparr>psize := psize p * 0.8\<rparr>)
            (Rgba 0 170 255 (density p * 0.3)) (- 0.02)
      | Liquid \<Rightarrow>
          set_color_buoyancy (p\<lparr>psize := psize p * 1.2\<rparr>)
            (Rgba 0 100 200 (density p * 0.7)) 0.01
      | Vapor \<Rightarrow>
          set_color_buoyancy (p\<lparr>psize := psize p * 0.6\<rparr>)
            (Rgba 200 200 255 (density p * 0.2)) (- 0.05))"

subsection \<open>The tick\<close>

definition Math_random :: "sim \<Rightarrow> real \<times> sim" where
  "Math_random s = (rand s (drawn s), s\<lparr>drawn := Suc (drawn s)\<rparr>)"

definition applyFlowForces :: "sim \<Rightarrow> particle \<Rightarrow> particle \<times> sim" where
  "applyFlowForces s p =
     (let (r1, s1) = Math_random s;
          turbulenceX = (r1 - 0.5) * turbulence (options s1);
          (r2, s2) = Math_random s1;
          turbulenceY = (r2 - 0.5) * turbulence (options s2);
          p1 = p\<lparr>vy := vy p + buoyancy p\<rparr>;
          flowX = sin (real (time s2) * 0.01 + py p1 * 0.01) * 0.1;
          flowY = cos (real (time s2) * 0.01 + px p1 * 0.01) * 0.1;
          p2 = p1\<lparr>vx := vx p1 + (turbulenceX + flowX)\<rparr>;
          p3 = p2\<lparr>vy := vy p2 + (turbulenceY + flowY)\<rparr>;
          p4 = p3\<lparr>vx := vx p3 * 0.98\<rparr>;
          p5 = p4\<lparr>vy := vy p4 * 0.98\<rparr>
      in (p5, s2))"

definition criticalTemp :: real where
  "criticalTemp = 373.15"

definition checkPhaseChange :: "sim \<Rightarrow> particle \<Rightarrow> particle \<times> sim" where
  "checkPhaseChange s p =
     (let p1 = (if phase p = Liquid \<and> temperature p > criticalTemp
                then setPhaseProperties (p\<lparr>phase := Vapor\<rparr>)
                else if phase p = Vapor \<and> temperature p < criticalTemp
                then setPhaseProperties (p\<lparr>phase := Liquid\<rparr>)
                else p);
          (r, s1) = Math_random s
      in (p1\<lparr>temperature := temperature p1 + (r - 0.5) * 0.5\<rparr>, s1))"

subsection \<open>Boundaries\<close>

definition applyBoundaries :: "sim \<Rightarrow> particle \<Rightarrow> particle" where
  "applyBoundaries s p =
     (let p1 = (if px p < 0 then p\<lparr>px := real (width (canvas s))\<rparr>
                else if px p > real (width (canvas s)) then p\<lparr>px := 0\<rparr>
                else p)
      in if py p1 < 0 then p1\<lparr>py := real (height (canvas s))\<rparr>
         else if py p1 > real (height (canvas s)) then p1\<lparr>py := 0\<rparr>
         else p1)"

definition resetParticle :: "sim \<Rightarrow> particle \<Rightarrow> particle \<times> sim" where
  "resetParticle s p =
     (let (r1, s1) = Math_random s;
          p1 = p\<lparr>px := r1 * real (width (canvas s1))\<rparr>;
          (r2, s2) = Math_random s1;
          p2 = p1\<lparr>py := r2 * real (height (canvas s2))\<rparr>;
          p3 = p2\<lparr>life := 1.0\<rparr>;
          (r3, s3) = Math_random s2
      in (p3\<lparr>temperature := opt_temperature (options s3) + (r3 - 0.5) * 20\<rparr>, s3))"

text \<open>The callback that \<^verbatim>\<open>updateParticles\<close> passes to \<^verbatim>\<open>forEach\<close>.\<close>

definition updateParticle :: "sim \<Rightarrow> particle \<Rightarrow> particle \<times> sim" where
  "updateParticle s p =
     (let (p1, s1) = applyFlowForces s p;
          (p2, s2) = checkPhaseChange s1 p1;
          p3 = p2\<lparr>px := px p2 + vx p2\<rparr>;
          p4 = p3\<lparr>py := py p3 + vy p3\<rparr>;
          p5 = applyBoundaries s2 p4;
          p6 = p5\<lparr>life := life p5 - 1 / maxLife p5\<rparr>
      in if life p6 \<le> 0 then resetParticle s2 p6 else (p6, s2))"

text \<open>
  \<^verbatim>\<open>forEach\<close> visits the particles in order; each one is mutated in place, which is the
  updated particle at the same index here.
\<close>

fun forEach_update :: "sim \<Rightarrow> particle list \<Rightarrow> particle list \<times> sim" where
  "forEach_update s [] = ([], s)"
| "forEach_update s (p # ps) =
     (let (p', s1) = updateParticle s p;
          (ps', s2) = forEach_update s1 ps
      in (p' # ps', s2))"

definition updateParticles :: "sim \<Rightarrow> sim" where
  "updateParticles s =
     (let (ps, s1) = forEach_update s (particles s) in s1\<lparr>particles := ps\<rparr>)"

subsection \<open>Creating the pool\<close>

text \<open>
  One iteration of the loop of \<^verbatim>\<open>createParticles\<close>, the draws in the order of the
  object literal. An index outside \<^verbatim>\<open>phaseTypes\<close> (the list is empty, or a draw is
  outside \<open>[0, 1)\<close>) reads \<^verbatim>\<open>undefined\<close>: no case of the \<^verbatim>\<open>switch\<close> matches, the
  particle gets no buoyancy and its velocity turns NaN at the first tick. Such a particle
  is outside the numbers modelled here, and the result is \<open>None\<close>.
\<close>

definition createParticle :: "sim \<Rightarrow> nat \<Rightarrow> (particle \<times> sim) option" where
  "createParticle s i =
     (let (r1, s1) = Math_random s;
          (r2, s2) = Math_random s1;
          (r3, s3) = Math_random s2;
          (r4, s4) = Math_random s3;
          (r5, s5) = Math_random s4;
          (r6, s6) = Math_random s5;
          (r7, s7) = Math_random s6;
          (r8, s8) = Math_random s7;
          (r9, s9) = Math_random s8;
          types = phaseTypes (options s);
          k = \<lfloor>r6 * real (length types)\<rfloor>
      in if 0 \<le> k \<and> nat k < length types
         then Some (setPhaseProperties
                \<lparr>pid = i,
                 px = r1 * real (width (canvas s)),
                 py = r2 * real (height (canvas s)),
                 vx = (r3 - 0.5) * flowSpeed (options s),
                 vy = (r4 - 0.5) * flowSpeed (options s),
                 psize = r5 * 5 + 2,
                 phase = types ! nat k,
                 density = r7 * 0.5 + 0.5,
                 temperature = opt_temperature (options s) + (r8 - 0.5) * 20,
                 life = 1.0,
                 maxLife = r9 * 100 + 50\<rparr>, s9)
         else None)"

text \<open>
  The loop \<^verbatim>\<open>for (let i = 0; i < this.options.particleCount; i++)\<close>: it runs for
  \<open>i = 0, \<dots>, n - 1\<close> where \<open>n\<close> is the least natural number that is not below
  \<^verbatim>\<open>particleCount\<close>; \<open>create_loop n i\<close> runs the \<open>n\<close> iterations that are left.
\<close>

fun create_loop :: "nat \<Rightarrow> nat \<Rightarrow> sim \<Rightarrow> sim option" where
  "create_loop 0 i s = Some s"
| "create_loop (Suc n) i s =
     (case createParticle s i of
        None \<Rightarrow> None
      | Some (p, s1) \<Rightarrow> create_loop n (Suc i) (s1\<lparr>particles := particles s1 @ [p]\<rparr>))"

definition createParticles :: "sim \<Rightarrow> sim option" where
  "createParticles s =
     create_loop (nat \<lceil>particleCount (options s)\<rceil>) 0 (s\<lparr>particles := []\<rparr>)"

subsection \<open>Construction\<close>

text \<open>\<^verbatim>\<open>options.k || d\<close> for a numeric key: absent (\<^verbatim>\<open>undefined\<close>) and \<open>0\<close> are falsy.\<close>

definition or_default :: "real option \<Rightarrow> real \<Rightarrow> real" where
  "or_default v d = (case v of None \<Rightarrow> d | Some n \<Rightarrow> if n = 0 then d else n)"

text \<open>\<^verbatim>\<open>options.phaseTypes || ['gas', 'liquid']\<close>: every array is truthy, the empty one too.\<close>

definition or_default_types :: "phase list option \<Rightarrow> phase list \<Rightarrow> phase list" where
  "or_default_types v d = (case v of None \<Rightarrow> d | Some ts \<Rightarrow> ts)"

text \<open>
  The trailing \<^verbatim>\<open>...options\<close> of the object literal: a key that is present in the
  argument overwrites the value written before it.
\<close>

definition spread :: "'a option \<Rightarrow> 'a \<Rightarrow> 'a" where
  "spread v before = (case v of None \<Rightarrow> before | Some w \<Rightarrow> w)"

definition build_options :: "options_arg \<Rightarrow> options" where
  "build_options a =
     \<lparr>particleCount = spread (arg_particleCount a) (or_default (arg_particleCount a) 100),
      flowSpeed = spread (arg_flowSpeed a) (or_default (arg_flowSpeed a) 1),
      turbulence = spread (arg_turbulence a) (or_default (arg_turbulence a) 0.1),
      phaseTypes = spread (arg_phaseTypes a) (or_default_types (arg_phaseTypes a) [Gas, Liquid]),
      opt_temperature = spread (arg_temperature a) (or_default (arg_temperature a) 293.15),
      pressure = spread (arg_pressure a) (or_default (arg_pressure a) 101325)\<rparr>"

text \<open>
  \<^verbatim>\<open>setupCanvas\<close> reads \<^verbatim>\<open>this.container.offsetWidth\<close> first; on an absent container
  (\<^verbatim>\<open>null\<close> or \<^verbatim>\<open>undefined\<close>) that read throws a \<^verbatim>\<open>TypeError\<close>, which carries the
  name of the property here.
\<close>

definition setupCanvas :: "container option \<Rightarrow> error + canvas" where
  "setupCanvas c =
     (case c of
        None \<Rightarrow> Inl (TypeError ''offsetWidth'')
      | Some h \<Rightarrow> Inr \<lparr>width = offsetWidth h, height = offsetHeight h\<rparr>)"

text \<open>
  The outcome of \<^verbatim>\<open>new FlowSimulation(container, options)\<close>: an exception, a pool
  with a particle outside the model (see \<open>createParticle\<close>), or the new simulation.
\<close>

datatype outcome = Threw error | Undefined_phase | Constructed sim

definition new_FlowSimulation :: "host \<Rightarrow> container option \<Rightarrow> options_arg \<Rightarrow> outcome" where
  "new_FlowSimulation h c a =
     (let opts = build_options a
      in case setupCanvas c of
           Inl e \<Rightarrow> Threw e
         | Inr cv \<Rightarrow>
             (case createParticles
                     \<lparr>rand = rand h, drawn = drawn h, pending = pending h,
                      nextHandle = nextHandle h, container = c, options = opts,
                      canvas = cv, particles = [], isRunning = False,
                      animationId = None, time = 0\<rparr> of
                None \<Rightarrow> Undefined_phase
              | Some s \<Rightarrow> Constructed s))"

subsection \<open>Run control\<close>

definition requestAnimationFrame :: "sim \<Rightarrow> nat \<times> sim" where
  "requestAnimationFrame s =
     (nextHandle s, s\<lparr>pending := pending s @ [nextHandle s], nextHandle := Suc (nextHandle s)\<rparr>)"

definition cancelAnimationFrame :: "nat \<Rightarrow> sim \<Rightarrow> sim" where
  "cancelAnimationFrame h s = s\<lparr>pending := removeAll h (pending s)\<rparr>"

definition animate :: "sim \<Rightarrow> sim" where
  "animate s =
     (if \<not> isRunning s then s
      else let s1 = s\<lparr>time := Suc (time s)\<rparr>;
               s2 = updateParticles s1;
               (h, s3) = requestAnimationFrame s2
           in s3\<lparr>animationId := Some h\<rparr>)"

definition start :: "sim \<Rightarrow> sim" where
  "start s = (if \<not> isRunning s then animate (s\<lparr>isRunning := True\<rparr>) else s)"

text \<open>\<^verbatim>\<open>if (this.animationId)\<close>: \<^verbatim>\<open>null\<close> and the handle \<open>0\<close> are falsy.\<close>

definition stop :: "sim \<Rightarrow> sim" where
  "stop s =
     (let s1 = s\<lparr>isRunning := False\<rparr>
      in case animationId s1 of
           None \<Rightarrow> s1
         | Some h \<Rightarrow> if h \<noteq> 0 then cancelAnimationFrame h s1 else s1)"


text \<open>
  The listener that \<^verbatim>\<open>setupCanvas\<close> registers for \<^verbatim>\<open>resize\<close>: the host has given the
  container new dimensions, and the canvas takes them; the particles stay where they are.
\<close>

definition on_resize :: "container \<Rightarrow> sim \<Rightarrow> sim" where
  "on_resize c s =
     s\<lparr>container := Some c, canvas := \<lparr>width = offsetWidth c, height = offsetHeight c\<rparr>\<rparr>"

text \<open>The listener of the button \<^verbatim>\<open>#resetSim\<close>: stop, make a new pool, start.\<close>

definition on_reset :: "sim \<Rightarrow> sim option" where
  "on_reset s = map_option start (createParticles (stop s))"

subsection \<open>Setters and queries\<close>

definition setFlowSpeed :: "real \<Rightarrow> sim \<Rightarrow> sim" where
  "setFlowSpeed speed s = s\<lparr>options := (options s)\<lparr>flowSpeed := speed\<rparr>\<rparr>"

definition setTurbulence :: "real \<Rightarrow> sim \<Rightarrow> sim" where
  "setTurbulence t s = s\<lparr>options := (options s)\<lparr>turbulence := t\<rparr>\<rparr>"

definition setTemperature :: "real \<Rightarrow> sim \<Rightarrow> sim" where
  "setTemperature t s = s\<lparr>options := (options s)\<lparr>opt_temperature := t\<rparr>\<rparr>"

definition getParticleCount :: "sim \<Rightarrow> nat" where
  "getParticleCount s = length (particles s)"

text \<open>
  The object \<^verbatim>\<open>distribution\<close> is an association list in the order in which the keys
  were added; \<^verbatim>\<open>(distribution[k] || 0)\<close> reads \<open>0\<close> for an absent key.
\<close>

definition count_or_zero :: "nat option \<Rightarrow> nat" where
  "count_or_zero v = (case v of None \<Rightarrow> 0 | Some n \<Rightarrow> if n = 0 then 0 else n)"

definition getPhaseDistribution :: "sim \<Rightarrow> (phase \<times> nat) list" where
  "getPhaseDistribution s =
     fold (\<lambda>p distribution.
             AList.update (phase p) (count_or_zero (map_of distribution (phase p)) + 1)
               distribution)
       (particles s) []"

subsection \<open>Auxiliary definitions\<close>

text \<open>
  The callback of \<^verbatim>\<open>updateParticles\<close> up to the test \<^verbatim>\<open>particle.life <= 0\<close>; it serves
  to split the proofs about \<open>updateParticle\<close>.
\<close>

definition advance :: "sim \<Rightarrow> particle \<Rightarrow> particle \<times> sim" where
  "advance s p =
     (let (p1, s1) = applyFlowForces s p;
          (p2, s2) = checkPhaseChange s1 p1;
          p3 = p2\<lparr>px := px p2 + vx p2\<rparr>;
          p4 = p3\<lparr>py := py p3 + vy p3\<rparr>;
          p5 = applyBoundaries s2 p4
      in (p5\<lparr>life := life p5 - 1 / maxLife p5\<rparr>, s2))"

text \<open>
  The number of values of \<^verbatim>\<open>Math.random()\<close> that the callback of \<^verbatim>\<open>updateParticles\<close>
  draws for a particle: two in \<^verbatim>\<open>applyFlowForces\<close>, one in \<^verbatim>\<open>checkPhaseChange\<close> and, when
  the life of the particle runs out, three in \<^verbatim>\<open>resetParticle\<close>.
\<close>

definition draws_used :: "particle \<Rightarrow> nat" where
  "draws_used p = (if life p - 1 / maxLife p \<le> 0 then 6 else 3)"

text \<open>A particle with its velocity erased, to compare particles up to their velocity.\<close>

definition forget_velocity :: "particle \<Rightarrow> particle" where
  "forget_velocity p = p\<lparr>vx := 0, vy := 0\<rparr>"


text \<open>
  Concrete inputs: a stopped simulation on a canvas of 100 by 50 in which every draw of
  \<^verbatim>\<open>Math.random()\<close> is \<open>0\<close>, with the default options, and a particle to place in it.
\<close>

definition example_options :: options where
  "example_options =
     \<lparr>particleCount = 2, flowSpeed = 1, turbulence = 0.1, phaseTypes = [Gas, Liquid],
      opt_temperature = 293.15, pressure = 101325\<rparr>"

definition example_sim :: sim where
  "example_sim =
     \<lparr>rand = (\<lambda>n. 0), drawn = 0, pending = [], nextHandle = 1,
      container = Some \<lparr>offsetWidth = 100, offsetHeight = 50\<rparr>,
      options = example_options, canvas = \<lparr>width = 100, height = 50\<rparr>, particles = [],
      isRunning = False, animationId = None, time = 0\<rparr>"

definition example_particle :: particle where
  "example_particle =
     \<lparr>pid = 0, px = 10, py = 10, vx = 1, vy = 0, psize = 3, phase = Liquid,
      density = 1, temperature = 300, life = 1, maxLife = 50,
      color = Rgba 0 100 200 0.7, buoyancy = 0.01\<rparr>"

text \<open>
  A pool of three particles: a liquid one at 400 K, a vapor one at 300 K and a gas one
  at 100000 K.
\<close>

definition example_pool :: sim where
  "example_pool =
     example_sim\<lparr>particles :=
       [example_particle\<lparr>temperature := 400\<rparr>,
        example_particle\<lparr>phase := Vapor, temperature := 300\<rparr>,
        example_particle\<lparr>phase := Gas, temperature := 100000\<rparr>]\<rparr>"

text \<open>A pool of one liquid particle just above the threshold.\<close>

definition example_boiling :: sim where
  "example_boiling =
     example_sim\<lparr>particles := [example_particle\<lparr>temperature := 373.2\<rparr>]\<rparr>"

text \<open>
  A pool of two particles, the second of which ends its life on the next tick, in a host
  whose draw number \<open>n\<close> (counted from 0) is \<open>1 / (n + 2)\<close>.
\<close>

definition example_expiring :: sim where
  "example_expiring =
     example_sim\<lparr>rand := (\<lambda>n. 1 / (real n + 2)),
       particles := [example_particle, example_particle\<lparr>life := 0.01\<rparr>]\<rparr>"

section \<open>Properties\<close>

subsection \<open>The functions in unfolded form\<close>

lemma applyBoundaries_unfold:
  "applyBoundaries s p =
     p\<lparr>px := (if px p < 0 then real (width (canvas s))
               else if px p > real (width (canvas s)) then 0 else px p),
       py := (if py p < 0 then real (height (canvas s))
               else if py p > real (height (canvas s)) then 0 else py p)\<rparr>"
  by (simp add: applyBoundaries_def Let_def)

lemma set_color_buoyancy_particle:
  "set_color_buoyancy (p::particle) c b = p\<lparr>color := c, buoyancy := b\<rparr>"
  by (cases p) (simp add: set_color_buoyancy_def particle_literal.defs particle.defs)

lemma set_color_buoyancy_fields:
  "pid (set_color_buoyancy p c b) = pid p"
  "px (set_color_buoyancy p c b) = px p"
  "py (set_color_buoyancy p c b) = py p"
  "vx (set_color_buoyancy p c b) = vx p"
  "vy (set_color_buoyancy p c b) = vy p"
  "psize (set_color_buoyancy p c b) = psize p"
  "phase (set_color_buoyancy p c b) = phase p"
  "density (set_color_buoyancy p c b) = density p"
  "temperature (set_color_buoyancy p c b) = temperature p"
  "life (set_color_buoyancy p c b) = life p"
  "maxLife (set_color_buoyancy p c b) = maxLife p"
  "color (set_color_buoyancy p c b) = c"
  "buoyancy (set_color_buoyancy p c b) = b"
  by (cases p; simp add: set_color_buoyancy_def particle_literal.defs particle.defs)+

lemma setPhaseProperties_fields:
  "pid (setPhaseProperties p) = pid p"
  "px (setPhaseProperties p) = px p"
  "py (setPhaseProperties p) = py p"
  "vx (setPhaseProperties p) = vx p"
  "vy (setPhaseProperties p) = vy p"
  "phase (setPhaseProperties p) = phase p"
  "density (setPhaseProperties p) = density p"
  "temperature (setPhaseProperties p) = temperature p"
  "life (setPhaseProperties p) = life p"
  "maxLife (setPhaseProperties p) = maxLife p"
  by (simp_all add: setPhaseProperties_def set_color_buoyancy_fields split: phase.split)

lemma setPhaseProperties_psize:
  "psize (setPhaseProperties p) =
     psize p * (case phase p of Gas \<Rightarrow> 0.8 | Liquid \<Rightarrow> 1.2 | Vapor \<Rightarrow> 0.6)"
  by (simp add: setPhaseProperties_def set_color_buoyancy_fields split: phase.split)

lemma setPhaseProperties_particle:
  "setPhaseProperties (p::particle) =
     (case phase p of
        Gas \<Rightarrow> p\<lparr>psize := psize p * 0.8, color := Rgba 0 170 255 (density p * 0.3), buoyancy := - 0.02\<rparr>
      | Liquid \<Rightarrow> p\<lparr>psize := psize p * 1.2, color := Rgba 0 100 200 (density p * 0.7), buoyancy := 0.01\<rparr>
      | Vapor \<Rightarrow> p\<lparr>psize := psize p * 0.6, color := Rgba 200 200 255 (density p * 0.2), buoyancy := - 0.05\<rparr>)"
  by (simp add: setPhaseProperties_def set_color_buoyancy_particle split: phase.split)

lemma createParticle_unfold:
  "createParticle s i =
     (if 0 \<le> \<lfloor>rand s (drawn s + 5) * real (length (phaseTypes (options s)))\<rfloor> \<and>
         nat \<lfloor>rand s (drawn s + 5) * real (length (phaseTypes (options s)))\<rfloor>
           < length (phaseTypes (options s))
      then Some (setPhaseProperties
                \<lparr>pid = i,
                 px = rand s (drawn s) * real (width (canvas s)),
                 py = rand s (drawn s + 1) * real (height (canvas s)),
                 vx = (rand s (drawn s + 2) - 0.5) * flowSpeed (options s),
                 vy = (rand s (drawn s + 3) - 0.5) * flowSpeed (options s),
                 psize = rand s (drawn s + 4) * 5 + 2,
                 phase = phaseTypes (options s) !
                   nat \<lfloor>rand s (drawn s + 5) * real (length (phaseTypes (options s)))\<rfloor>,
                 density = rand s (drawn s + 6) * 0.5 + 0.5,
                 temperature = opt_temperature (options s) + (rand s (drawn s + 7) - 0.5) * 20,
                 life = 1,
                 maxLife = rand s (drawn s + 8) * 100 + 50\<rparr>, s\<lparr>drawn := drawn s + 9\<rparr>)
      else None)"
  by (simp add: createParticle_def Math_random_def Let_def eval_nat_numeral)

lemma applyFlowForces_unfold:
  "applyFlowForces s p =
     (p\<lparr>vx := (vx p + ((rand s (drawn s) - 0.5) * turbulence (options s)
                 + sin (real (time s) * 0.01 + py p * 0.01) * 0.1)) * 0.98,
        vy := (vy p + buoyancy p + ((rand s (Suc (drawn s)) - 0.5) * turbulence (options s)
                 + cos (real (time s) * 0.01 + px p * 0.01) * 0.1)) * 0.98\<rparr>,
      s\<lparr>drawn := Suc (Suc (drawn s))\<rparr>)"
  by (simp add: applyFlowForces_def Math_random_def Let_def)

lemma checkPhaseChange_unfold:
  "checkPhaseChange s p =
     (p\<lparr>phase := (if phase p = Liquid \<and> temperature p > criticalTemp then Vapor
                    else if phase p = Vapor \<and> temperature p < criticalTemp then Liquid
                    else phase p),
        psize := (if phase p = Liquid \<and> temperature p > criticalTemp then psize p * 0.6
                    else if phase p = Vapor \<and> temperature p < criticalTemp then psize p * 1.2
                    else psize p),
        temperature := temperature p + (rand s (drawn s) - 0.5) * 0.5,
        color := (if phase p = Liquid \<and> temperature p > criticalTemp
                    then Rgba 200 200 255 (density p * 0.2)
                    else if phase p = Vapor \<and> temperature p < criticalTemp
                    then Rgba 0 100 200 (density p * 0.7)
                    else color p),
        buoyancy := (if phase p = Liquid \<and> temperature p > criticalTemp then - 0.05
                    else if phase p = Vapor \<and> temperature p < criticalTemp then 0.01
                    else buoyancy p)\<rparr>,
      s\<lparr>drawn := Suc (drawn s)\<rparr>)"
  by (simp add: checkPhaseChange_def Math_random_def Let_def setPhaseProperties_particle)

lemma resetParticle_unfold:
  "resetParticle s p =
     (p\<lparr>px := rand s (drawn s) * real (width (canvas s)),
        py := rand s (Suc (drawn s)) * real (height (canvas s)),
        life := 1,
        temperature := opt_temperature (options s) + (rand s (Suc (Suc (drawn s))) - 0.5) * 20\<rparr>,
      s\<lparr>drawn := Suc (Suc (Suc (drawn s)))\<rparr>)"
  by (simp add: resetParticle_def Math_random_def Let_def)

lemma updateParticle_advance:
  "updateParticle s p =
     (if life (fst (advance s p)) \<le> 0
      then resetParticle (snd (advance s p)) (fst (advance s p))
      else advance s p)"
  by (simp add: updateParticle_def advance_def Let_def split_def)

lemma advance_snd: "snd (advance s p) = s\<lparr>drawn := drawn s + 3\<rparr>"
  by (simp add: advance_def applyFlowForces_unfold checkPhaseChange_unfold Let_def)

lemma advance_fields:
  "pid (fst (advance s p)) = pid p"
  "density (fst (advance s p)) = density p"
  "maxLife (fst (advance s p)) = maxLife p"
  "life (fst (advance s p)) = life p - 1 / maxLife p"
  "temperature (fst (advance s p)) = temperature p + (rand s (drawn s + 2) - 0.5) * 0.5"
  "phase (fst (advance s p)) =
     (if phase p = Liquid \<and> temperature p > criticalTemp then Vapor
      else if phase p = Vapor \<and> temperature p < criticalTemp then Liquid
      else phase p)"
  "psize (fst (advance s p)) =
     (if phase p = Liquid \<and> temperature p > criticalTemp then psize p * 0.6
      else if phase p = Vapor \<and> temperature p < criticalTemp then psize p * 1.2
      else psize p)"
  by (simp_all add: advance_def applyFlowForces_unfold checkPhaseChange_unfold
      applyBoundaries_unfold Let_def)

lemma updateParticle_snd:
  "snd (updateParticle s p) =
     s\<lparr>drawn := drawn s + (if life p - 1 / maxLife p \<le> 0 then 6 else 3)\<rparr>"
  by (simp add: updateParticle_advance resetParticle_unfold advance_snd advance_fields)

lemma updateParticle_fields:
  "pid (fst (updateParticle s p)) = pid p"
  "density (fst (updateParticle s p)) = density p"
  "maxLife (fst (updateParticle s p)) = maxLife p"
  "life (fst (updateParticle s p)) =
     (if life p - 1 / maxLife p \<le> 0 then 1 else life p - 1 / maxLife p)"
  "phase (fst (updateParticle s p)) =
     (if phase p = Liquid \<and> temperature p > criticalTemp then Vapor
      else if phase p = Vapor \<and> temperature p < criticalTemp then Liquid
      else phase p)"
  "psize (fst (updateParticle s p)) =
     (if phase p = Liquid \<and> temperature p > criticalTemp then psize p * 0.6
      else if phase p = Vapor \<and> temperature p < criticalTemp then psize p * 1.2
      else psize p)"
  by (simp_all add: updateParticle_advance resetParticle_unfold advance_snd advance_fields)

lemma updateParticle_reset:
  assumes "life p - 1 / maxLife p \<le> 0"
  shows "px (fst (updateParticle s p)) = rand s (drawn s + 3) * real (width (canvas s))"
    and "py (fst (updateParticle s p)) = rand s (drawn s + 4) * real (height (canvas s))"
    and "temperature (fst (updateParticle s p)) =
           opt_temperature (options s) + (rand s (drawn s + 5) - 0.5) * 20"
  using assms
  by (simp_all add: updateParticle_advance resetParticle_unfold advance_snd advance_fields
      eval_nat_numeral)

lemma updateParticle_no_reset:
  assumes "\<not> life p - 1 / maxLife p \<le> 0"
  shows "temperature (fst (updateParticle s p)) =
           temperature p + (rand s (drawn s + 2) - 0.5) * 0.5"
  using assms by (simp add: updateParticle_advance advance_fields)

subsection \<open>The loop over the pool\<close>

lemma forEach_update_length: "length (fst (forEach_update s ps)) = length ps"
  by (induction ps arbitrary: s) (simp_all add: split_def Let_def)

lemma forEach_update_snd:
  "snd (forEach_update s ps) = s\<lparr>drawn := drawn (snd (forEach_update s ps))\<rparr>"
proof (induction ps arbitrary: s)
  case Nil
  show ?case by simp
next
  case (Cons p ps)
  have "snd (forEach_update s (p # ps)) = snd (forEach_update (snd (updateParticle s p)) ps)"
    by (simp add: split_def Let_def)
  also have "\<dots> = (snd (updateParticle s p))\<lparr>drawn := drawn (snd (forEach_update (snd (updateParticle s p)) ps))\<rparr>"
    by (rule Cons.IH)
  also have "\<dots> = s\<lparr>drawn := drawn (snd (forEach_update (snd (updateParticle s p)) ps))\<rparr>"
    by (simp add: updateParticle_snd)
  finally show ?case by (simp add: split_def Let_def)
qed

lemma forEach_update_nth:
  "i < length ps \<Longrightarrow>
   \<exists>d. fst (forEach_update s ps) ! i = fst (updateParticle (s\<lparr>drawn := d\<rparr>) (ps ! i))"
proof (induction ps arbitrary: s i)
  case Nil
  then show ?case by simp
next
  case (Cons p ps)
  show ?case
  proof (cases i)
    case 0
    have "fst (forEach_update s (p # ps)) ! 0 = fst (updateParticle (s\<lparr>drawn := drawn s\<rparr>) p)"
      by (simp add: split_def Let_def)
    with 0 have "fst (forEach_update s (p # ps)) ! i
        = fst (updateParticle (s\<lparr>drawn := drawn s\<rparr>) ((p # ps) ! i))"
      by simp
    then show ?thesis by (rule exI)
  next
    case (Suc j)
    with Cons.prems have j: "j < length ps" by simp
    obtain e where e: "snd (updateParticle s p) = s\<lparr>drawn := e\<rparr>"
      using updateParticle_snd by blast
    from Cons.IH [OF j, of "s\<lparr>drawn := e\<rparr>"]
    obtain d where
      "fst (forEach_update (s\<lparr>drawn := e\<rparr>) ps) ! j = fst (updateParticle (s\<lparr>drawn := d\<rparr>) (ps ! j))"
      by auto
    with Suc e show ?thesis by (auto simp: split_def Let_def)
  qed
qed

lemma updateParticles_particles:
  "particles (updateParticles s) = fst (forEach_update s (particles s))"
  by (simp add: updateParticles_def split_def Let_def)

lemma updateParticles_rest:
  "updateParticles s =
     s\<lparr>drawn := drawn (updateParticles s), particles := particles (updateParticles s)\<rparr>"
proof -
  have "updateParticles s =
      (snd (forEach_update s (particles s)))\<lparr>particles := fst (forEach_update s (particles s))\<rparr>"
    by (simp add: updateParticles_def split_def Let_def)
  also have "\<dots> = (s\<lparr>drawn := drawn (snd (forEach_update s (particles s)))\<rparr>)
      \<lparr>particles := fst (forEach_update s (particles s))\<rparr>"
    using forEach_update_snd [of s "particles s"] by simp
  finally have eq: "updateParticles s = (s\<lparr>drawn := drawn (snd (forEach_update s (particles s)))\<rparr>)
      \<lparr>particles := fst (forEach_update s (particles s))\<rparr>" .
  show ?thesis by (subst (1) eq) (simp add: eq)
qed

lemma updateParticles_length: "length (particles (updateParticles s)) = length (particles s)"
  by (simp add: updateParticles_particles forEach_update_length)

lemma updateParticles_nth:
  "i < length (particles s) \<Longrightarrow>
   \<exists>d. particles (updateParticles s) ! i = fst (updateParticle (s\<lparr>drawn := d\<rparr>) (particles s ! i))"
  by (simp add: updateParticles_particles forEach_update_nth)

lemma updateParticle_snd_draws:
  "snd (updateParticle s p) = s\<lparr>drawn := drawn s + draws_used p\<rparr>"
  by (simp add: updateParticle_snd draws_used_def)

lemma forEach_update_nth_exact:
  "i < length ps \<Longrightarrow>
   fst (forEach_update s ps) ! i =
     fst (updateParticle (s\<lparr>drawn := drawn s + sum_list (map draws_used (take i ps))\<rparr>) (ps ! i))"
proof (induction ps arbitrary: s i)
  case Nil
  then show ?case by simp
next
  case (Cons p ps)
  show ?case
  proof (cases i)
    case 0
    then show ?thesis by (simp add: split_def Let_def)
  next
    case (Suc j)
    with Cons.prems have j: "j < length ps" by simp
    let ?s1 = "s\<lparr>drawn := drawn s + draws_used p\<rparr>"
    have "fst (forEach_update s (p # ps)) ! i = fst (forEach_update ?s1 ps) ! j"
      by (simp add: Suc split_def Let_def updateParticle_snd_draws)
    also have "\<dots> = fst (updateParticle
        (?s1\<lparr>drawn := drawn ?s1 + sum_list (map draws_used (take j ps))\<rparr>) (ps ! j))"
      by (rule Cons.IH [OF j])
    also have "?s1\<lparr>drawn := drawn ?s1 + sum_list (map draws_used (take j ps))\<rparr>
        = s\<lparr>drawn := drawn s + sum_list (map draws_used (take i (p # ps)))\<rparr>"
      by (simp add: Suc add.assoc)
    finally show ?thesis by (simp add: Suc)
  qed
qed

lemma forEach_update_drawn:
  "drawn (snd (forEach_update s ps)) = drawn s + sum_list (map draws_used ps)"
  by (induction ps arbitrary: s) (simp_all add: split_def Let_def updateParticle_snd_draws)

lemma updateParticles_nth_exact:
  "i < length (particles s) \<Longrightarrow>
   particles (updateParticles s) ! i =
     fst (updateParticle
       (s\<lparr>drawn := drawn s + sum_list (map draws_used (take i (particles s)))\<rparr>)
       (particles s ! i))"
  by (simp add: updateParticles_particles forEach_update_nth_exact)

lemma updateParticles_drawn:
  "drawn (updateParticles s) = drawn s + sum_list (map draws_used (particles s))"
  by (simp add: updateParticles_def split_def Let_def forEach_update_drawn)

lemma updateParticle_temperature:
  "temperature (fst (updateParticle s p)) =
     (if life p - 1 / maxLife p \<le> 0
      then opt_temperature (options s) + (rand s (drawn s + 5) - 0.5) * 20
      else temperature p + (rand s (drawn s + 2) - 0.5) * 0.5)"
  by (simp add: updateParticle_reset updateParticle_no_reset)

lemma funpow_updateParticles_length:
  "length (particles ((updateParticles ^^ n) s)) = length (particles s)"
  by (induction n) (simp_all add: updateParticles_length)

lemma updateParticles_phase:
  assumes "i < length (particles s)"
  shows "phase (particles (updateParticles s) ! i) =
     (if phase (particles s ! i) = Liquid \<and> temperature (particles s ! i) > criticalTemp
      then Vapor
      else if phase (particles s ! i) = Vapor \<and> temperature (particles s ! i) < criticalTemp
      then Liquid
      else phase (particles s ! i))"
proof -
  from updateParticles_nth [OF assms] obtain d where
    "particles (updateParticles s) ! i = fst (updateParticle (s\<lparr>drawn := d\<rparr>) (particles s ! i))" ..
  then show ?thesis by (simp only: updateParticle_fields)
qed

lemma updateParticles_psize:
  assumes "i < length (particles s)"
  shows "psize (particles (updateParticles s) ! i) =
     (if phase (particles s ! i) = Liquid \<and> temperature (particles s ! i) > criticalTemp
      then psize (particles s ! i) * 0.6
      else if phase (particles s ! i) = Vapor \<and> temperature (particles s ! i) < criticalTemp
      then psize (particles s ! i) * 1.2
      else psize (particles s ! i))"
proof -
  from updateParticles_nth [OF assms] obtain d where
    "particles (updateParticles s) ! i = fst (updateParticle (s\<lparr>drawn := d\<rparr>) (particles s ! i))" ..
  then show ?thesis by (simp only: updateParticle_fields)
qed

lemma funpow_updateParticles_gas:
  assumes "i < length (particles s)" and "phase (particles s ! i) = Gas"
  shows "phase (particles ((updateParticles ^^ n) s) ! i) = Gas"
proof (induction n)
  case 0
  from assms show ?case by simp
next
  case (Suc n)
  have "i < length (particles ((updateParticles ^^ n) s))"
    using assms by (simp add: funpow_updateParticles_length)
  from updateParticles_phase [OF this] Suc show ?case by simp
qed

subsection \<open>Boundary handling\<close>

text \<open>
  C1, as the specification states it: after \<^verbatim>\<open>applyBoundaries\<close> the position lies in
  \<open>[0, width) \<times> [0, height)\<close>. This fails on a canvas of 100 by 50 for a particle that has
  moved to \<open>x = -1\<close>: the function puts it at \<open>x = 100\<close>, the width itself.
\<close>

theorem applyBoundaries_half_open_counterexample:
  "0 < width (canvas example_sim) \<and> 0 < height (canvas example_sim) \<and>
   px (applyBoundaries example_sim (example_particle\<lparr>px := - 1\<rparr>)) = 100 \<and>
   \<not> (px (applyBoundaries example_sim (example_particle\<lparr>px := - 1\<rparr>))
        < real (width (canvas example_sim)))"
  by (simp add: applyBoundaries_unfold example_sim_def example_particle_def)

text \<open>
  C1, amended: after \<^verbatim>\<open>applyBoundaries\<close> the position lies in the closed rectangle
  \<open>[0, width] \<times> [0, height]\<close>, for every particle and every canvas.
\<close>

theorem applyBoundaries_closed_range:
  "0 \<le> px (applyBoundaries s p) \<and> px (applyBoundaries s p) \<le> real (width (canvas s)) \<and>
   0 \<le> py (applyBoundaries s p) \<and> py (applyBoundaries s p) \<le> real (height (canvas s))"
  by (simp add: applyBoundaries_unfold)

subsection \<open>Phase transitions and size\<close>

text \<open>
  C2: on a tick a liquid particle above 373.15 becomes vapor, a vapor particle below
  373.15 becomes liquid, and a gas particle stays gas over any number of ticks, whatever
  its temperature.
\<close>

theorem phase_transitions_on_tick:
  assumes "i < length (particles s)"
  shows "(phase (particles s ! i) = Liquid \<and> temperature (particles s ! i) > 373.15
            \<longrightarrow> phase (particles (updateParticles s) ! i) = Vapor) \<and>
         (phase (particles s ! i) = Vapor \<and> temperature (particles s ! i) < 373.15
            \<longrightarrow> phase (particles (updateParticles s) ! i) = Liquid) \<and>
         (phase (particles s ! i) = Gas
            \<longrightarrow> phase (particles ((updateParticles ^^ n) s) ! i) = Gas)"
  using updateParticles_phase [OF assms] funpow_updateParticles_gas [OF assms]
  by (simp add: criticalTemp_def)

theorem phase_transitions_on_tick_witness:
  "phase (particles (updateParticles example_pool) ! 0) = Vapor \<and>
   phase (particles (updateParticles example_pool) ! 1) = Liquid \<and>
   phase (particles ((updateParticles ^^ 10000) example_pool) ! 2) = Gas"
  using phase_transitions_on_tick [of 0 example_pool 0]
    phase_transitions_on_tick [of 1 example_pool 0]
    phase_transitions_on_tick [of 2 example_pool 10000]
  by (simp add: example_pool_def example_sim_def example_particle_def)

text \<open>
  C4: \<^verbatim>\<open>setPhaseProperties\<close> multiplies the size the particle has by the multiplier of
  its phase; a tick multiplies the size by 0.6 on the transition from liquid to vapor,
  by 1.2 on the transition from vapor to liquid and leaves it otherwise; a particle that
  goes from liquid to vapor on one tick and back to liquid on the next has its size
  multiplied by 0.6 and by 1.2.
\<close>

theorem size_multiplier_compounds:
  assumes "i < length (particles s)"
  shows "psize (setPhaseProperties p) =
           psize p * (case phase p of Gas \<Rightarrow> 0.8 | Liquid \<Rightarrow> 1.2 | Vapor \<Rightarrow> 0.6) \<and>
         psize (particles (updateParticles s) ! i) =
           psize (particles s ! i) *
             (if phase (particles s ! i) = Liquid \<and> temperature (particles s ! i) > 373.15
              then 0.6
              else if phase (particles s ! i) = Vapor \<and> temperature (particles s ! i) < 373.15
              then 1.2
              else 1) \<and>
         (phase (particles s ! i) = Liquid \<and> temperature (particles s ! i) > 373.15 \<and>
          temperature (particles (updateParticles s) ! i) < 373.15
            \<longrightarrow> phase (particles (updateParticles s) ! i) = Vapor \<and>
                phase (particles (updateParticles (updateParticles s)) ! i) = Liquid \<and>
                psize (particles (updateParticles (updateParticles s)) ! i) =
                  psize (particles s ! i) * 0.6 * 1.2)"
proof -
  have i': "i < length (particles (updateParticles s))"
    using assms by (simp add: updateParticles_length)
  show ?thesis
    using updateParticles_psize [OF assms] updateParticles_phase [OF assms]
      updateParticles_psize [OF i'] updateParticles_phase [OF i']
    by (simp add: criticalTemp_def setPhaseProperties_psize)
qed

lemma example_boiling_first_tick:
  "particles (updateParticles example_boiling) ! 0
     = fst (updateParticle example_boiling (example_particle\<lparr>temperature := 373.2\<rparr>))"
  by (simp add: updateParticles_particles example_boiling_def split_def Let_def)

theorem size_multiplier_compounds_witness:
  "phase (particles (updateParticles example_boiling) ! 0) = Vapor \<and>
   phase (particles (updateParticles (updateParticles example_boiling)) ! 0) = Liquid \<and>
   psize (particles (updateParticles (updateParticles example_boiling)) ! 0) = 3 * 0.6 * 1.2"
proof -
  have t: "temperature (particles (updateParticles example_boiling) ! 0) < 373.15"
    by (simp add: example_boiling_first_tick updateParticle_temperature)
      (simp add: example_boiling_def example_sim_def example_particle_def)
  have h: "0 < length (particles example_boiling)"
    by (simp add: example_boiling_def)
  have p: "phase (particles example_boiling ! 0) = Liquid"
    "temperature (particles example_boiling ! 0) > 373.15"
    "psize (particles example_boiling ! 0) = 3"
    by (simp_all add: example_boiling_def example_particle_def)
  from size_multiplier_compounds [OF h, of example_particle] t p show ?thesis by simp
qed

subsection \<open>Life, reset and creation\<close>

text \<open>
  C10: \<^verbatim>\<open>resetParticle\<close> writes \<^verbatim>\<open>x\<close>, \<^verbatim>\<open>y\<close>, \<^verbatim>\<open>life\<close> and \<^verbatim>\<open>temperature\<close> and nothing
  else: velocity, size, phase, density, buoyancy, colour and \<^verbatim>\<open>maxLife\<close> (and the id)
  are the ones the particle had. So after a tick, with or without a reset at its end,
  velocity, size and phase are the ones the tick computed before it tested the life.
\<close>

theorem resetParticle_frame:
  "fst (resetParticle s p) =
     p\<lparr>px := px (fst (resetParticle s p)), py := py (fst (resetParticle s p)),
       life := life (fst (resetParticle s p)),
       temperature := temperature (fst (resetParticle s p))\<rparr> \<and>
   pid (fst (resetParticle s p)) = pid p \<and>
   vx (fst (resetParticle s p)) = vx p \<and>
   vy (fst (resetParticle s p)) = vy p \<and>
   psize (fst (resetParticle s p)) = psize p \<and>
   phase (fst (resetParticle s p)) = phase p \<and>
   density (fst (resetParticle s p)) = density p \<and>
   buoyancy (fst (resetParticle s p)) = buoyancy p \<and>
   color (fst (resetParticle s p)) = color p \<and>
   maxLife (fst (resetParticle s p)) = maxLife p \<and>
   vx (fst (updateParticle s p)) = vx (fst (advance s p)) \<and>
   vy (fst (updateParticle s p)) = vy (fst (advance s p)) \<and>
   psize (fst (updateParticle s p)) = psize (fst (advance s p)) \<and>
   phase (fst (updateParticle s p)) = phase (fst (advance s p))"
  by (simp add: resetParticle_unfold updateParticle_advance)

lemma createParticle_Some:
  assumes "createParticle s i = Some (p, s')"
  shows "s' = s\<lparr>drawn := drawn s + 9\<rparr>"
    and "pid p = i"
    and "life p = 1"
    and "maxLife p = rand s (drawn s + 8) * 100 + 50"
  using assms
  by (auto simp: createParticle_unfold setPhaseProperties_fields split: if_splits)

lemma create_loop_new:
  "create_loop n i s = Some s' \<Longrightarrow>
   \<exists>d new. s' = s\<lparr>drawn := d, particles := particles s @ new\<rparr> \<and> length new = n \<and>
     (\<forall>q\<in>set new. life q = 1 \<and> (\<exists>k. maxLife q = rand s k * 100 + 50))"
proof (induction n arbitrary: i s)
  case 0
  then have "s' = s\<lparr>drawn := drawn s, particles := particles s @ []\<rparr> \<and>
      length ([]::particle list) = 0 \<and>
      (\<forall>q\<in>set ([]::particle list). life q = 1 \<and> (\<exists>k. maxLife q = rand s k * 100 + 50))"
    by simp
  then show ?case by (intro exI)
next
  case (Suc n)
  from Suc.prems obtain p s1 where
    c: "createParticle s i = Some (p, s1)" and
    l: "create_loop n (Suc i) (s1\<lparr>particles := particles s1 @ [p]\<rparr>) = Some s'"
    by (auto split: option.splits)
  note f = createParticle_Some [OF c]
  from Suc.IH [OF l] obtain d new where
    s': "s' = (s1\<lparr>particles := particles s1 @ [p]\<rparr>)\<lparr>drawn := d,
            particles := particles (s1\<lparr>particles := particles s1 @ [p]\<rparr>) @ new\<rparr>"
    and n: "length new = n"
    and q: "\<forall>q\<in>set new. life q = 1 \<and>
            (\<exists>k. maxLife q = rand (s1\<lparr>particles := particles s1 @ [p]\<rparr>) k * 100 + 50)"
    by blast
  from s' f(1) have "s' = s\<lparr>drawn := d, particles := particles s @ (p # new)\<rparr>" by simp
  moreover from n have "length (p # new) = Suc n" by simp
  moreover from q f have
    "\<forall>q\<in>set (p # new). life q = 1 \<and> (\<exists>k. maxLife q = rand s k * 100 + 50)"
    by auto
  ultimately show ?case by blast
qed

lemma createParticles_new:
  assumes "createParticles s = Some s'"
  shows "\<exists>d. s' = s\<lparr>drawn := d, particles := particles s'\<rparr>"
    and "length (particles s') = nat \<lceil>particleCount (options s)\<rceil>"
    and "\<forall>q\<in>set (particles s'). life q = 1 \<and> (\<exists>k. maxLife q = rand s k * 100 + 50)"
proof -
  from assms have "create_loop (nat \<lceil>particleCount (options s)\<rceil>) 0 (s\<lparr>particles := []\<rparr>) = Some s'"
    by (simp add: createParticles_def)
  from create_loop_new [OF this] obtain d new where
    s': "s' = s\<lparr>drawn := d, particles := new\<rparr>"
    and n: "length new = nat \<lceil>particleCount (options s)\<rceil>"
    and q: "\<forall>q\<in>set new. life q = 1 \<and> (\<exists>k. maxLife q = rand s k * 100 + 50)"
    by auto
  from s' show "\<exists>d. s' = s\<lparr>drawn := d, particles := particles s'\<rparr>" by auto
  from s' n show "length (particles s') = nat \<lceil>particleCount (options s)\<rceil>" by simp
  from s' q show "\<forall>q\<in>set (particles s'). life q = 1 \<and> (\<exists>k. maxLife q = rand s k * 100 + 50)"
    by simp
qed

lemma create_loop_pids:
  "create_loop n i s = Some s' \<Longrightarrow>
   map pid (particles s') = map pid (particles s) @ [i ..< i + n] \<and>
   drawn s' = drawn s + 9 * n"
proof (induction n arbitrary: i s)
  case 0
  then show ?case by simp
next
  case (Suc n)
  from Suc.prems obtain p s1 where
    c: "createParticle s i = Some (p, s1)" and
    l: "create_loop n (Suc i) (s1\<lparr>particles := particles s1 @ [p]\<rparr>) = Some s'"
    by (auto split: option.splits)
  note f = createParticle_Some [OF c]
  from Suc.IH [OF l] f(1,2) show ?case
    by (simp add: upt_conv_Cons)
qed

lemma createParticles_pids:
  assumes "createParticles s = Some s'"
  shows "map pid (particles s') = [0 ..< nat \<lceil>particleCount (options s)\<rceil>]"
    and "drawn s' = drawn s + 9 * nat \<lceil>particleCount (options s)\<rceil>"
proof -
  from assms have "create_loop (nat \<lceil>particleCount (options s)\<rceil>) 0 (s\<lparr>particles := []\<rparr>) = Some s'"
    by (simp add: createParticles_def)
  from create_loop_pids [OF this]
  show "map pid (particles s') = [0 ..< nat \<lceil>particleCount (options s)\<rceil>]"
    and "drawn s' = drawn s + 9 * nat \<lceil>particleCount (options s)\<rceil>"
    by simp_all
qed

lemma phase_index_in_range:
  fixes r :: real
  assumes "0 \<le> r" and "r < 1" and "0 < n"
  shows "0 \<le> \<lfloor>r * real n\<rfloor> \<and> nat \<lfloor>r * real n\<rfloor> < n"
proof -
  from assms(1) have nonneg: "0 \<le> \<lfloor>r * real n\<rfloor>" by simp
  from assms(2,3) have "r * real n < real n" by simp
  then have "\<lfloor>r * real n\<rfloor> < int n" by (simp add: floor_less_iff)
  with nonneg have "nat \<lfloor>r * real n\<rfloor> < n" by linarith
  with nonneg show ?thesis ..
qed

lemma createParticle_succeeds:
  assumes "\<forall>k. 0 \<le> rand s k \<and> rand s k < 1" and "phaseTypes (options s) \<noteq> []"
  shows "\<exists>p. createParticle s i = Some (p, s\<lparr>drawn := drawn s + 9\<rparr>)"
proof -
  from assms(1) have "0 \<le> rand s (drawn s + 5)" "rand s (drawn s + 5) < 1" by simp_all
  moreover from assms(2) have "0 < length (phaseTypes (options s))" by simp
  ultimately have "0 \<le> \<lfloor>rand s (drawn s + 5) * real (length (phaseTypes (options s)))\<rfloor> \<and>
      nat \<lfloor>rand s (drawn s + 5) * real (length (phaseTypes (options s)))\<rfloor>
        < length (phaseTypes (options s))"
    by (rule phase_index_in_range)
  then show ?thesis by (simp add: createParticle_unfold)
qed

lemma create_loop_succeeds:
  "\<forall>k. 0 \<le> rand s k \<and> rand s k < 1 \<Longrightarrow> phaseTypes (options s) \<noteq> [] \<Longrightarrow>
   \<exists>s'. create_loop n i s = Some s'"
proof (induction n arbitrary: i s)
  case 0
  show ?case by simp
next
  case (Suc n)
  from createParticle_succeeds [OF Suc.prems] obtain p where
    p: "createParticle s i = Some (p, s\<lparr>drawn := drawn s + 9\<rparr>)" ..
  let ?s1 = "(s\<lparr>drawn := drawn s + 9\<rparr>)\<lparr>particles := particles (s\<lparr>drawn := drawn s + 9\<rparr>) @ [p]\<rparr>"
  from Suc.prems have "\<forall>k. 0 \<le> rand ?s1 k \<and> rand ?s1 k < 1" "phaseTypes (options ?s1) \<noteq> []"
    by simp_all
  from Suc.IH [OF this, of "Suc i"] p show ?case by simp
qed

lemma createParticles_succeeds:
  assumes "\<forall>k. 0 \<le> rand s k \<and> rand s k < 1" and "phaseTypes (options s) \<noteq> []"
  shows "\<exists>s'. createParticles s = Some s'"
proof -
  from assms have "\<forall>k. 0 \<le> rand (s\<lparr>particles := []\<rparr>) k \<and> rand (s\<lparr>particles := []\<rparr>) k < 1"
    "phaseTypes (options (s\<lparr>particles := []\<rparr>)) \<noteq> []"
    by simp_all
  from create_loop_succeeds [OF this] show ?thesis by (simp add: createParticles_def)
qed

lemma draw_within_ten:
  fixes r t :: real
  assumes "0 \<le> r" and "r < 1"
  shows "\<bar>(t + (r - 0.5) * 20) - t\<bar> \<le> 10"
  using assms by (simp add: abs_le_iff algebra_simps)

text \<open>
  C3: from a non-empty \<^verbatim>\<open>phaseTypes\<close>, \<^verbatim>\<open>createParticles\<close> makes, whatever the pool
  was, a pool of as many particles as the loop has iterations, numbered from 0, each
  with life 1 (and a \<^verbatim>\<open>maxLife\<close> from 50 to 150). \<^verbatim>\<open>resetParticle\<close> draws three values:
  a position on the canvas, life 1, which lies in \<open>(0, 1]\<close>, and a temperature around
  the configured one. A tick takes exactly \<open>1 / maxLife\<close> from the life of a particle;
  when that leaves no life, the tick resets the particle in place, with the three draws
  that follow the three of its own update, so that its temperature is within 10 of the
  configured temperature. The draws of \<^verbatim>\<open>Math.random()\<close> lie in \<open>[0, 1)\<close>, and \<^verbatim>\<open>maxLife\<close>
  is positive, as it is for every particle that \<^verbatim>\<open>createParticles\<close> makes.
\<close>

theorem life_decreases_until_reset:
  assumes draws: "\<forall>k. 0 \<le> rand s k \<and> rand s k < 1"
  shows "(phaseTypes (options s) \<noteq> [] \<longrightarrow>
            (\<exists>s'. createParticles s = Some s' \<and>
                  length (particles s') = nat \<lceil>particleCount (options s)\<rceil> \<and>
                  map pid (particles s') = [0 ..< nat \<lceil>particleCount (options s)\<rceil>] \<and>
                  drawn s' = drawn s + 9 * nat \<lceil>particleCount (options s)\<rceil> \<and>
                  (\<forall>q\<in>set (particles s'). life q = 1 \<and> 50 \<le> maxLife q \<and> maxLife q < 150))) \<and>
         resetParticle s p =
           (p\<lparr>px := rand s (drawn s) * real (width (canvas s)),
              py := rand s (drawn s + 1) * real (height (canvas s)),
              life := 1,
              temperature := opt_temperature (options s) + (rand s (drawn s + 2) - 0.5) * 20\<rparr>,
            s\<lparr>drawn := drawn s + 3\<rparr>) \<and>
         0 < life (fst (resetParticle s p)) \<and> life (fst (resetParticle s p)) \<le> 1 \<and>
         length (particles (updateParticles s)) = length (particles s) \<and>
         drawn (updateParticles s) = drawn s + sum_list (map draws_used (particles s)) \<and>
         (i < length (particles s) \<and> 0 < maxLife (particles s ! i) \<longrightarrow>
            pid (particles (updateParticles s) ! i) = pid (particles s ! i) \<and>
            maxLife (particles (updateParticles s) ! i) = maxLife (particles s ! i) \<and>
            (life (particles s ! i) - 1 / maxLife (particles s ! i) > 0 \<longrightarrow>
               life (particles (updateParticles s) ! i) =
                 life (particles s ! i) - 1 / maxLife (particles s ! i)) \<and>
            (life (particles s ! i) - 1 / maxLife (particles s ! i) \<le> 0 \<longrightarrow>
               (let d = drawn s + sum_list (map draws_used (take i (particles s)))
                in life (particles (updateParticles s) ! i) = 1 \<and>
                   px (particles (updateParticles s) ! i) =
                     rand s (d + 3) * real (width (canvas s)) \<and>
                   py (particles (updateParticles s) ! i) =
                     rand s (d + 4) * real (height (canvas s)) \<and>
                   temperature (particles (updateParticles s) ! i) =
                     opt_temperature (options s) + (rand s (d + 5) - 0.5) * 20) \<and>
               0 \<le> px (particles (updateParticles s) ! i) \<and>
               px (particles (updateParticles s) ! i) \<le> real (width (canvas s)) \<and>
               0 \<le> py (particles (updateParticles s) ! i) \<and>
               py (particles (updateParticles s) ! i) \<le> real (height (canvas s)) \<and>
               \<bar>temperature (particles (updateParticles s) ! i) - opt_temperature (options s)\<bar>
                 \<le> 10))"
proof -
  let ?n = "nat \<lceil>particleCount (options s)\<rceil>"
  let ?d = "drawn s + sum_list (map draws_used (take i (particles s)))"
  let ?q = "particles (updateParticles s) ! i"
  have created: "phaseTypes (options s) \<noteq> [] \<longrightarrow>
      (\<exists>s'. createParticles s = Some s' \<and>
            length (particles s') = ?n \<and>
            map pid (particles s') = [0 ..< ?n] \<and>
            drawn s' = drawn s + 9 * ?n \<and>
            (\<forall>q\<in>set (particles s'). life q = 1 \<and> 50 \<le> maxLife q \<and> maxLife q < 150))"
  proof
    assume "phaseTypes (options s) \<noteq> []"
    from createParticles_succeeds [OF draws this] obtain s' where
      c: "createParticles s = Some s'" ..
    have "\<forall>q\<in>set (particles s'). life q = 1 \<and> 50 \<le> maxLife q \<and> maxLife q < 150"
    proof
      fix q assume "q \<in> set (particles s')"
      with createParticles_new(3) [OF c] obtain k where
        q: "life q = 1" "maxLife q = rand s k * 100 + 50" by blast
      from draws have "0 \<le> rand s k" "rand s k < 1" by simp_all
      with q show "life q = 1 \<and> 50 \<le> maxLife q \<and> maxLife q < 150" by simp
    qed
    with c createParticles_new(2) [OF c] createParticles_pids [OF c]
    show "\<exists>s'. createParticles s = Some s' \<and>
            length (particles s') = ?n \<and>
            map pid (particles s') = [0 ..< ?n] \<and>
            drawn s' = drawn s + 9 * ?n \<and>
            (\<forall>q\<in>set (particles s'). life q = 1 \<and> 50 \<le> maxLife q \<and> maxLife q < 150)"
      by blast
  qed
  have reset: "resetParticle s p =
           (p\<lparr>px := rand s (drawn s) * real (width (canvas s)),
              py := rand s (drawn s + 1) * real (height (canvas s)),
              life := 1,
              temperature := opt_temperature (options s) + (rand s (drawn s + 2) - 0.5) * 20\<rparr>,
            s\<lparr>drawn := drawn s + 3\<rparr>)"
    by (simp add: resetParticle_unfold eval_nat_numeral)
  have reset_life: "0 < life (fst (resetParticle s p))" "life (fst (resetParticle s p)) \<le> 1"
    by (simp_all add: resetParticle_unfold)
  have tick: "i < length (particles s) \<and> 0 < maxLife (particles s ! i) \<longrightarrow>
      pid ?q = pid (particles s ! i) \<and>
      maxLife ?q = maxLife (particles s ! i) \<and>
      (life (particles s ! i) - 1 / maxLife (particles s ! i) > 0 \<longrightarrow>
         life ?q = life (particles s ! i) - 1 / maxLife (particles s ! i)) \<and>
      (life (particles s ! i) - 1 / maxLife (particles s ! i) \<le> 0 \<longrightarrow>
         (let d = ?d
          in life ?q = 1 \<and>
             px ?q = rand s (d + 3) * real (width (canvas s)) \<and>
             py ?q = rand s (d + 4) * real (height (canvas s)) \<and>
             temperature ?q = opt_temperature (options s) + (rand s (d + 5) - 0.5) * 20) \<and>
         0 \<le> px ?q \<and> px ?q \<le> real (width (canvas s)) \<and>
         0 \<le> py ?q \<and> py ?q \<le> real (height (canvas s)) \<and>
         \<bar>temperature ?q - opt_temperature (options s)\<bar> \<le> 10)"
  proof
    assume "i < length (particles s) \<and> 0 < maxLife (particles s ! i)"
    then have i: "i < length (particles s)" ..
    note d = updateParticles_nth_exact [OF i]
    have kept: "pid ?q = pid (particles s ! i)" "maxLife ?q = maxLife (particles s ! i)"
      by (simp_all add: d updateParticle_fields)
    have alive: "life (particles s ! i) - 1 / maxLife (particles s ! i) > 0 \<longrightarrow>
        life ?q = life (particles s ! i) - 1 / maxLife (particles s ! i)"
      by (simp add: d updateParticle_fields)
    have expired: "life (particles s ! i) - 1 / maxLife (particles s ! i) \<le> 0 \<longrightarrow>
         (let d = ?d
          in life ?q = 1 \<and>
             px ?q = rand s (d + 3) * real (width (canvas s)) \<and>
             py ?q = rand s (d + 4) * real (height (canvas s)) \<and>
             temperature ?q = opt_temperature (options s) + (rand s (d + 5) - 0.5) * 20) \<and>
         0 \<le> px ?q \<and> px ?q \<le> real (width (canvas s)) \<and>
         0 \<le> py ?q \<and> py ?q \<le> real (height (canvas s)) \<and>
         \<bar>temperature ?q - opt_temperature (options s)\<bar> \<le> 10"
    proof
      assume e: "life (particles s ! i) - 1 / maxLife (particles s ! i) \<le> 0"
      have l: "life ?q = 1"
        using e by (simp add: d updateParticle_fields)
      have x: "px ?q = rand s (?d + 3) * real (width (canvas s))"
        and y: "py ?q = rand s (?d + 4) * real (height (canvas s))"
        and t: "temperature ?q = opt_temperature (options s) + (rand s (?d + 5) - 0.5) * 20"
        using updateParticle_reset [OF e, of "s\<lparr>drawn := ?d\<rparr>"] by (simp_all add: d)
      from draws have r3: "0 \<le> rand s (?d + 3)" "rand s (?d + 3) \<le> 1"
        and r4: "0 \<le> rand s (?d + 4)" "rand s (?d + 4) \<le> 1"
        and r5: "0 \<le> rand s (?d + 5)" "rand s (?d + 5) < 1"
        by (simp_all add: less_imp_le)
      from r3 have bx: "0 \<le> px ?q" "px ?q \<le> real (width (canvas s))"
        by (simp_all add: x mult_left_le_one_le)
      from r4 have by': "0 \<le> py ?q" "py ?q \<le> real (height (canvas s))"
        by (simp_all add: y mult_left_le_one_le)
      from draw_within_ten [OF r5] have
        bt: "\<bar>temperature ?q - opt_temperature (options s)\<bar> \<le> 10"
        by (simp only: t)
      from l x y t have "let d = ?d
          in life ?q = 1 \<and>
             px ?q = rand s (d + 3) * real (width (canvas s)) \<and>
             py ?q = rand s (d + 4) * real (height (canvas s)) \<and>
             temperature ?q = opt_temperature (options s) + (rand s (d + 5) - 0.5) * 20"
        by (simp only: Let_def)
      with bx by' bt show "(let d = ?d
          in life ?q = 1 \<and>
             px ?q = rand s (d + 3) * real (width (canvas s)) \<and>
             py ?q = rand s (d + 4) * real (height (canvas s)) \<and>
             temperature ?q = opt_temperature (options s) + (rand s (d + 5) - 0.5) * 20) \<and>
         0 \<le> px ?q \<and> px ?q \<le> real (width (canvas s)) \<and>
         0 \<le> py ?q \<and> py ?q \<le> real (height (canvas s)) \<and>
         \<bar>temperature ?q - opt_temperature (options s)\<bar> \<le> 10"
        by (intro conjI)
    qed
    from kept alive expired show "pid ?q = pid (particles s ! i) \<and>
      maxLife ?q = maxLife (particles s ! i) \<and>
      (life (particles s ! i) - 1 / maxLife (particles s ! i) > 0 \<longrightarrow>
         life ?q = life (particles s ! i) - 1 / maxLife (particles s ! i)) \<and>
      (life (particles s ! i) - 1 / maxLife (particles s ! i) \<le> 0 \<longrightarrow>
         (let d = ?d
          in life ?q = 1 \<and>
             px ?q = rand s (d + 3) * real (width (canvas s)) \<and>
             py ?q = rand s (d + 4) * real (height (canvas s)) \<and>
             temperature ?q = opt_temperature (options s) + (rand s (d + 5) - 0.5) * 20) \<and>
         0 \<le> px ?q \<and> px ?q \<le> real (width (canvas s)) \<and>
         0 \<le> py ?q \<and> py ?q \<le> real (height (canvas s)) \<and>
         \<bar>temperature ?q - opt_temperature (options s)\<bar> \<le> 10)"
      by (intro conjI)
  qed
  have len: "length (particles (updateParticles s)) = length (particles s)"
    by (rule updateParticles_length)
  have dr: "drawn (updateParticles s) = drawn s + sum_list (map draws_used (particles s))"
    by (rule updateParticles_drawn)
  from created reset reset_life len dr tick show ?thesis by (intro conjI)
qed

theorem life_decreases_until_reset_witness:
  "(\<exists>s'. createParticles example_sim = Some s' \<and>
         length (particles s') = 2 \<and>
         map pid (particles s') = [0, 1] \<and>
         list_all (\<lambda>q. life q = 1 \<and> 50 \<le> maxLife q) (particles s')) \<and>
   life (particles (updateParticles example_expiring) ! 0) = 0.98 \<and>
   life (particles (updateParticles example_expiring) ! 1) = 1 \<and>
   px (particles (updateParticles example_expiring) ! 1) = 12.5 \<and>
   py (particles (updateParticles example_expiring) ! 1) = 50 / 9 \<and>
   temperature (particles (updateParticles example_expiring) ! 1) = 285.15 \<and>
   drawn (updateParticles example_expiring) = 9"
proof -
  have draws: "\<forall>k. 0 \<le> rand example_sim k \<and> rand example_sim k < 1"
    "\<forall>k. 0 \<le> rand example_expiring k \<and> rand example_expiring k < 1"
    by (simp_all add: example_expiring_def example_sim_def)
  have c: "phaseTypes (options example_sim) \<noteq> []"
    "nat \<lceil>particleCount (options example_sim)\<rceil> = 2"
    by (simp_all add: example_sim_def example_options_def)
  have p: "0 < length (particles example_expiring) \<and>
      0 < maxLife (particles example_expiring ! 0)"
    "life (particles example_expiring ! 0) - 1 / maxLife (particles example_expiring ! 0) = 0.98"
    "1 < length (particles example_expiring) \<and>
      0 < maxLife (particles example_expiring ! 1)"
    "life (particles example_expiring ! 1) - 1 / maxLife (particles example_expiring ! 1) \<le> 0"
    by (simp_all add: example_expiring_def example_particle_def)
  have v: "drawn example_expiring = 0"
    "sum_list (map draws_used (particles example_expiring)) = 9"
    "sum_list (map draws_used (take (Suc 0) (particles example_expiring))) = 3"
    "rand example_expiring = (\<lambda>n. 1 / (real n + 2))"
    "width (canvas example_expiring) = 100" "height (canvas example_expiring) = 50"
    "opt_temperature (options example_expiring) = 293.15"
    by (simp_all add: example_expiring_def example_sim_def example_options_def
        example_particle_def draws_used_def)
  have upt: "[0 ..< 2] = [0, 1::nat]"
    by (simp add: numeral_2_eq_2 upt_conv_Cons)
  note C = life_decreases_until_reset [OF draws(1), of example_particle 0]
  from C [THEN conjunct1, THEN mp, OF c(1)] obtain s' where
    s': "createParticles example_sim = Some s'"
      "length (particles s') = nat \<lceil>particleCount (options example_sim)\<rceil>"
      "map pid (particles s') = [0 ..< nat \<lceil>particleCount (options example_sim)\<rceil>]"
      "\<forall>q\<in>set (particles s'). life q = 1 \<and> 50 \<le> maxLife q \<and> maxLife q < 150"
    by blast
  from s'(4) have "list_all (\<lambda>q. life q = 1 \<and> 50 \<le> maxLife q) (particles s')"
    by (simp add: list_all_iff)
  with s'(1-3) upt
  have created: "\<exists>s'. createParticles example_sim = Some s' \<and>
         length (particles s') = 2 \<and>
         map pid (particles s') = [0, 1] \<and>
         list_all (\<lambda>q. life q = 1 \<and> 50 \<le> maxLife q) (particles s')"
    by (simp add: c(2))
  note T0 = life_decreases_until_reset [OF draws(2), of example_particle 0]
  note T1 = life_decreases_until_reset [OF draws(2), of example_particle 1]
  note rest0 = T0 [THEN conjunct2, THEN conjunct2, THEN conjunct2, THEN conjunct2, THEN conjunct2]
  note rest1 = T1 [THEN conjunct2, THEN conjunct2, THEN conjunct2, THEN conjunct2, THEN conjunct2]
  from rest0 [THEN conjunct1] have dr: "drawn (updateParticles example_expiring) = 9"
    by (simp add: v)
  note tick0 = rest0 [THEN conjunct2, THEN mp, OF p(1)]
  note tick1 = rest1 [THEN conjunct2, THEN mp, OF p(3)]
  from tick0 [THEN conjunct2, THEN conjunct2, THEN conjunct1]
  have a: "life (particles (updateParticles example_expiring) ! 0) = 0.98"
    by (simp add: p(2))
  note ex = tick1 [THEN conjunct2, THEN conjunct2, THEN conjunct2, THEN mp, OF p(4),
      THEN conjunct1]
  from ex have b: "life (particles (updateParticles example_expiring) ! 1) = 1"
    "px (particles (updateParticles example_expiring) ! 1) = 12.5"
    "py (particles (updateParticles example_expiring) ! 1) = 50 / 9"
    "temperature (particles (updateParticles example_expiring) ! 1) = 285.15"
    by (simp_all add: Let_def v)
  from created a b dr show ?thesis by (intro conjI)
qed

subsection \<open>The phase distribution\<close>

lemma count_update_sum:
  "sum_list (map snd (AList.update k (Suc (count_or_zero (map_of d k))) d))
     = Suc (sum_list (map snd d))"
  by (induction d) (auto simp: count_or_zero_def)

lemma fold_count_sum:
  "sum_list (map snd
      (fold (\<lambda>p d. AList.update (phase p) (Suc (count_or_zero (map_of d (phase p)))) d) ps d0))
     = sum_list (map snd d0) + length ps"
  by (induction ps arbitrary: d0) (simp_all add: count_update_sum)

lemma fold_count_distinct:
  "distinct (map fst d0) \<Longrightarrow>
   distinct (map fst
      (fold (\<lambda>p d. AList.update (phase p) (Suc (count_or_zero (map_of d (phase p)))) d) ps d0))"
  by (induction ps arbitrary: d0) (simp_all add: distinct_update)

text \<open>
  C6: the mapping that \<^verbatim>\<open>getPhaseDistribution\<close> returns has every phase label at most
  once, and its counts add up to \<^verbatim>\<open>getParticleCount()\<close>, in every state.
\<close>

theorem phase_distribution_sums_to_count:
  "distinct (map fst (getPhaseDistribution s)) \<and>
   sum_list (map snd (getPhaseDistribution s)) = getParticleCount s"
  by (simp add: getPhaseDistribution_def getParticleCount_def fold_count_sum fold_count_distinct)

subsection \<open>Options and construction\<close>

text \<open>
  With a container, draws in \<open>[0, 1)\<close> and a \<^verbatim>\<open>phaseTypes\<close> that is not the empty array,
  the construction returns a stopped simulation with nothing scheduled by it.
\<close>

lemma construction_succeeds_with_container:
  assumes "\<forall>k. 0 \<le> rand h k \<and> rand h k < 1" and "arg_phaseTypes a \<noteq> Some []"
  shows "\<exists>s. new_FlowSimulation h (Some c) a = Constructed s \<and>
           options s = build_options a \<and>
           canvas s = \<lparr>width = offsetWidth c, height = offsetHeight c\<rparr> \<and>
           length (particles s) = nat \<lceil>particleCount (build_options a)\<rceil> \<and>
           \<not> isRunning s \<and> pending s = pending h \<and> time s = 0"
proof -
  let ?s0 = "\<lparr>rand = rand h, drawn = drawn h, pending = pending h,
      nextHandle = nextHandle h, container = Some c, options = build_options a,
      canvas = \<lparr>width = offsetWidth c, height = offsetHeight c\<rparr>, particles = [],
      isRunning = False, animationId = None, time = 0\<rparr>"
  from assms(2) have "phaseTypes (build_options a) \<noteq> []"
    by (auto simp: build_options_def spread_def or_default_types_def split: option.split)
  with assms(1) have "\<forall>k. 0 \<le> rand ?s0 k \<and> rand ?s0 k < 1" "phaseTypes (options ?s0) \<noteq> []"
    by simp_all
  from createParticles_succeeds [OF this] obtain s where s: "createParticles ?s0 = Some s" ..
  from createParticles_new(1) [OF s] obtain d where
    d: "s = ?s0\<lparr>drawn := d, particles := particles s\<rparr>" ..
  have f: "options s = build_options a"
    "canvas s = \<lparr>width = offsetWidth c, height = offsetHeight c\<rparr>"
    "\<not> isRunning s" "pending s = pending h" "time s = 0"
    by (subst d, simp)+
  from createParticles_new(2) [OF s]
  have n: "length (particles s) = nat \<lceil>particleCount (build_options a)\<rceil>" by simp
  have "new_FlowSimulation h (Some c) a = Constructed s"
    using s by (simp add: new_FlowSimulation_def setupCanvas_def)
  with f n show ?thesis by blast
qed

text \<open>
  C7: with an absent container the construction throws, whatever the options and the
  host: \<^verbatim>\<open>setupCanvas\<close> reads \<^verbatim>\<open>offsetWidth\<close> of the container before any particle is
  made, and that read raises the \<^verbatim>\<open>TypeError\<close> of the engine, which names the property.
\<close>

theorem construction_fails_without_container:
  "new_FlowSimulation h None a = Threw (TypeError ''offsetWidth'')"
  by (simp add: new_FlowSimulation_def setupCanvas_def)

text \<open>
  C9, as stated: a configuration that sets \<^verbatim>\<open>turbulence\<close> (or \<^verbatim>\<open>flowSpeed\<close>) to \<open>0\<close>
  gets the default instead. It does not: the spread \<^verbatim>\<open>...options\<close> at the end of the
  object literal writes the \<open>0\<close> of the argument over the default.
\<close>

theorem zero_option_replaced_counterexample:
  "turbulence (build_options
      \<lparr>arg_particleCount = None, arg_flowSpeed = Some 0, arg_turbulence = Some 0,
       arg_phaseTypes = None, arg_temperature = None, arg_pressure = None\<rparr>) = 0 \<and>
   turbulence (build_options
      \<lparr>arg_particleCount = None, arg_flowSpeed = Some 0, arg_turbulence = Some 0,
       arg_phaseTypes = None, arg_temperature = None, arg_pressure = None\<rparr>) \<noteq> 0.1 \<and>
   flowSpeed (build_options
      \<lparr>arg_particleCount = None, arg_flowSpeed = Some 0, arg_turbulence = Some 0,
       arg_phaseTypes = None, arg_temperature = None, arg_pressure = None\<rparr>) = 0 \<and>
   flowSpeed (build_options
      \<lparr>arg_particleCount = None, arg_flowSpeed = Some 0, arg_turbulence = Some 0,
       arg_phaseTypes = None, arg_temperature = None, arg_pressure = None\<rparr>) \<noteq> 1"
  by (simp add: build_options_def spread_def or_default_def)

text \<open>
  C9, amended: every option the constructor stores is the value the configuration gives
  for the key when the key is present, \<open>0\<close> included, and the documented default when
  the key is absent.
\<close>

theorem options_default_only_when_absent:
  "particleCount (build_options a) = (case arg_particleCount a of None \<Rightarrow> 100 | Some v \<Rightarrow> v) \<and>
   flowSpeed (build_options a) = (case arg_flowSpeed a of None \<Rightarrow> 1 | Some v \<Rightarrow> v) \<and>
   turbulence (build_options a) = (case arg_turbulence a of None \<Rightarrow> 0.1 | Some v \<Rightarrow> v) \<and>
   phaseTypes (build_options a) =
     (case arg_phaseTypes a of None \<Rightarrow> [Gas, Liquid] | Some v \<Rightarrow> v) \<and>
   opt_temperature (build_options a) =
     (case arg_temperature a of None \<Rightarrow> 293.15 | Some v \<Rightarrow> v) \<and>
   pressure (build_options a) = (case arg_pressure a of None \<Rightarrow> 101325 | Some v \<Rightarrow> v)"
  by (simp add: build_options_def spread_def or_default_def or_default_types_def
      split: option.split)

subsection \<open>Starting and stopping\<close>

lemma updateParticles_kept:
  "rand (updateParticles s) = rand s"
  "pending (updateParticles s) = pending s"
  "nextHandle (updateParticles s) = nextHandle s"
  "container (updateParticles s) = container s"
  "options (updateParticles s) = options s"
  "canvas (updateParticles s) = canvas s"
  "isRunning (updateParticles s) = isRunning s"
  "animationId (updateParticles s) = animationId s"
  "time (updateParticles s) = time s"
  by (subst updateParticles_rest, simp)+

lemma animate_running:
  "isRunning s \<Longrightarrow>
   animate s =
     (updateParticles (s\<lparr>time := Suc (time s)\<rparr>))
       \<lparr>pending := pending s @ [nextHandle s], nextHandle := Suc (nextHandle s),
        animationId := Some (nextHandle s)\<rparr>"
  by (simp add: animate_def requestAnimationFrame_def Let_def updateParticles_kept)

lemma animate_running_fields:
  assumes "isRunning s"
  shows "isRunning (animate s)"
    and "pending (animate s) = pending s @ [nextHandle s]"
    and "nextHandle (animate s) = Suc (nextHandle s)"
    and "animationId (animate s) = Some (nextHandle s)"
    and "time (animate s) = Suc (time s)"
  using assms by (simp_all add: animate_running updateParticles_kept)


lemma start_stopped: "\<not> isRunning s \<Longrightarrow> start s = animate (s\<lparr>isRunning := True\<rparr>)"
  by (simp add: start_def)





lemma stop_cancels:
  assumes "pending s = [h]" and "animationId s = Some h" and "h \<noteq> 0"
  shows "\<not> isRunning (stop s)" and "pending (stop s) = []"
  using assms by (simp_all add: stop_def cancelAnimationFrame_def Let_def)

lemma stop_after_start:
  assumes "\<not> isRunning s" and "pending s = []" and "0 < nextHandle s"
  shows "\<not> isRunning (stop (start s))" and "pending (stop (start s)) = []"
proof -
  have r: "isRunning (s\<lparr>isRunning := True\<rparr>)" by simp
  from assms animate_running_fields [OF r]
  have "pending (start s) = [nextHandle s]" "animationId (start s) = Some (nextHandle s)"
    by (simp_all add: start_stopped)
  with assms(3) show "\<not> isRunning (stop (start s))" and "pending (stop (start s)) = []"
    by (simp_all add: stop_cancels)
qed



subsection \<open>The flow speed\<close>

lemma applyFlowForces_setFlowSpeed:
  "applyFlowForces (setFlowSpeed f s) p =
     (fst (applyFlowForces s p), setFlowSpeed f (snd (applyFlowForces s p)))"
  by (simp add: applyFlowForces_unfold setFlowSpeed_def)

lemma checkPhaseChange_setFlowSpeed:
  "checkPhaseChange (setFlowSpeed f s) p =
     (fst (checkPhaseChange s p), setFlowSpeed f (snd (checkPhaseChange s p)))"
  by (simp add: checkPhaseChange_unfold setFlowSpeed_def)

lemma applyBoundaries_setFlowSpeed:
  "applyBoundaries (setFlowSpeed f s) p = applyBoundaries s p"
  by (simp add: applyBoundaries_unfold setFlowSpeed_def)

lemma resetParticle_setFlowSpeed:
  "resetParticle (setFlowSpeed f s) p =
     (fst (resetParticle s p), setFlowSpeed f (snd (resetParticle s p)))"
  by (simp add: resetParticle_unfold setFlowSpeed_def)

lemma updateParticle_setFlowSpeed:
  "updateParticle (setFlowSpeed f s) p =
     (fst (updateParticle s p), setFlowSpeed f (snd (updateParticle s p)))"
  by (simp add: updateParticle_def applyFlowForces_setFlowSpeed checkPhaseChange_setFlowSpeed
      applyBoundaries_setFlowSpeed resetParticle_setFlowSpeed Let_def split_def)

lemma forEach_update_setFlowSpeed:
  "forEach_update (setFlowSpeed f s) ps =
     (fst (forEach_update s ps), setFlowSpeed f (snd (forEach_update s ps)))"
  by (induction ps arbitrary: s) (simp_all add: updateParticle_setFlowSpeed Let_def split_def)

lemma updateParticles_setFlowSpeed:
  "updateParticles (setFlowSpeed f s) = setFlowSpeed f (updateParticles s)"
proof -
  have p: "particles (setFlowSpeed f s) = particles s" by (simp add: setFlowSpeed_def)
  show ?thesis
    by (simp add: updateParticles_def p forEach_update_setFlowSpeed Let_def split_def)
      (simp add: setFlowSpeed_def)
qed

lemma setPhaseProperties_velocity:
  "setPhaseProperties (p\<lparr>vx := a, vy := b\<rparr>) = (setPhaseProperties p)\<lparr>vx := a, vy := b\<rparr>"
  by (cases p)
    (simp add: setPhaseProperties_def set_color_buoyancy_def particle_literal.defs
      particle.defs split: phase.split)

lemma createParticle_setFlowSpeed:
  "createParticle (setFlowSpeed f (s\<lparr>particles := pt\<rparr>)) i =
     (case createParticle s i of
        None \<Rightarrow> None
      | Some (p, s1) \<Rightarrow>
          Some (p\<lparr>vx := (rand s (drawn s + 2) - 0.5) * f,
                  vy := (rand s (drawn s + 3) - 0.5) * f\<rparr>,
                setFlowSpeed f (s1\<lparr>particles := pt\<rparr>)))"
proof -
  let ?lit = "\<lambda>g. \<lparr>pid = i,
                 px = rand s (drawn s) * real (width (canvas s)),
                 py = rand s (drawn s + 1) * real (height (canvas s)),
                 vx = (rand s (drawn s + 2) - 0.5) * g,
                 vy = (rand s (drawn s + 3) - 0.5) * g,
                 psize = rand s (drawn s + 4) * 5 + 2,
                 phase = phaseTypes (options s) !
                   nat \<lfloor>rand s (drawn s + 5) * real (length (phaseTypes (options s)))\<rfloor>,
                 density = rand s (drawn s + 6) * 0.5 + 0.5,
                 temperature = opt_temperature (options s) + (rand s (drawn s + 7) - 0.5) * 20,
                 life = 1,
                 maxLife = rand s (drawn s + 8) * 100 + 50\<rparr>"
  have "?lit f = (?lit (flowSpeed (options s)))\<lparr>vx := (rand s (drawn s + 2) - 0.5) * f,
                  vy := (rand s (drawn s + 3) - 0.5) * f\<rparr>"
    by simp
  then have "setPhaseProperties (?lit f) =
      (setPhaseProperties (?lit (flowSpeed (options s))))\<lparr>vx := (rand s (drawn s + 2) - 0.5) * f,
                  vy := (rand s (drawn s + 3) - 0.5) * f\<rparr>"
    by (simp only: setPhaseProperties_velocity)
  then show ?thesis
    by (simp add: createParticle_unfold setFlowSpeed_def)
qed

lemma create_loop_setFlowSpeed:
  "t = setFlowSpeed f (s\<lparr>particles := pt\<rparr>) \<Longrightarrow>
   map forget_velocity pt = map forget_velocity (particles s) \<Longrightarrow>
   rel_option
     (\<lambda>s' t'. \<exists>ps. t' = setFlowSpeed f (s'\<lparr>particles := ps\<rparr>) \<and>
                  map forget_velocity ps = map forget_velocity (particles s'))
     (create_loop n i s) (create_loop n i t)"
proof (induction n arbitrary: i s t pt)
  case 0
  then show ?case by auto
next
  case (Suc n)
  show ?case
  proof (cases "createParticle s i")
    case None
    with Suc.prems(1) show ?thesis by (simp add: createParticle_setFlowSpeed)
  next
    case (Some r)
    obtain p s1 where r: "r = (p, s1)" by (cases r)
    let ?q = "p\<lparr>vx := (rand s (drawn s + 2) - 0.5) * f, vy := (rand s (drawn s + 3) - 0.5) * f\<rparr>"
    let ?t1 = "setFlowSpeed f (s1\<lparr>particles := pt\<rparr>)"
    from Some r createParticle_Some(1) [of s i p s1]
    have s1: "particles s1 = particles s" by simp
    have q: "forget_velocity ?q = forget_velocity p" by (simp add: forget_velocity_def)
    with Suc.prems(2) s1
    have m: "map forget_velocity (pt @ [?q])
        = map forget_velocity (particles (s1\<lparr>particles := particles s1 @ [p]\<rparr>))"
      by simp
    have e: "?t1\<lparr>particles := particles ?t1 @ [?q]\<rparr>
        = setFlowSpeed f ((s1\<lparr>particles := particles s1 @ [p]\<rparr>)\<lparr>particles := pt @ [?q]\<rparr>)"
      by (simp add: setFlowSpeed_def)
    have cs: "create_loop (Suc n) i s
        = create_loop n (Suc i) (s1\<lparr>particles := particles s1 @ [p]\<rparr>)"
      using Some r by simp
    have "createParticle t i = Some (?q, ?t1)"
      using Some r Suc.prems(1) by (simp add: createParticle_setFlowSpeed)
    then have ct: "create_loop (Suc n) i t
        = create_loop n (Suc i) (?t1\<lparr>particles := particles ?t1 @ [?q]\<rparr>)"
      by simp
    from Suc.IH [OF e m, of "Suc i"] show ?thesis
      by (simp only: cs ct)
  qed
qed

text \<open>
  C8: a tick does not read \<^verbatim>\<open>flowSpeed\<close>. Two states that differ in the stored
  \<^verbatim>\<open>flowSpeed\<close> only have the same particles after \<^verbatim>\<open>updateParticles\<close>, and still
  differ in \<^verbatim>\<open>flowSpeed\<close> only. \<^verbatim>\<open>createParticles\<close> reads it for the velocity: with
  another \<^verbatim>\<open>flowSpeed\<close> it makes the same pool up to the velocities of the particles,
  and the velocity of a new particle is the centred draw times \<^verbatim>\<open>flowSpeed\<close>.
\<close>

theorem tick_ignores_flowSpeed:
  "updateParticles (setFlowSpeed f s) = setFlowSpeed f (updateParticles s) \<and>
   particles (updateParticles (setFlowSpeed f s)) = particles (updateParticles s) \<and>
   rel_option
     (\<lambda>s' t'. \<exists>ps. t' = setFlowSpeed f (s'\<lparr>particles := ps\<rparr>) \<and>
                  map forget_velocity ps = map forget_velocity (particles s'))
     (createParticles s) (createParticles (setFlowSpeed f s)) \<and>
   (case createParticle s i of
      None \<Rightarrow> True
    | Some (p, s1) \<Rightarrow>
        vx p = (rand s (drawn s + 2) - 0.5) * flowSpeed (options s) \<and>
        vy p = (rand s (drawn s + 3) - 0.5) * flowSpeed (options s))"
proof -
  have t: "updateParticles (setFlowSpeed f s) = setFlowSpeed f (updateParticles s)"
    by (rule updateParticles_setFlowSpeed)
  then have p: "particles (updateParticles (setFlowSpeed f s)) = particles (updateParticles s)"
    by (simp add: setFlowSpeed_def)
  have e: "(setFlowSpeed f s)\<lparr>particles := []\<rparr>
      = setFlowSpeed f ((s\<lparr>particles := []\<rparr>)\<lparr>particles := []\<rparr>)"
    by (simp add: setFlowSpeed_def)
  have o: "particleCount (options (setFlowSpeed f s)) = particleCount (options s)"
    by (simp add: setFlowSpeed_def)
  have m: "map forget_velocity [] = map forget_velocity (particles (s\<lparr>particles := []\<rparr>))"
    by simp
  have c: "rel_option
     (\<lambda>s' t'. \<exists>ps. t' = setFlowSpeed f (s'\<lparr>particles := ps\<rparr>) \<and>
                  map forget_velocity ps = map forget_velocity (particles s'))
     (createParticles s) (createParticles (setFlowSpeed f s))"
    unfolding createParticles_def o
    by (rule create_loop_setFlowSpeed [OF e m])
  have v: "case createParticle s i of
      None \<Rightarrow> True
    | Some (p, s1) \<Rightarrow>
        vx p = (rand s (drawn s + 2) - 0.5) * flowSpeed (options s) \<and>
        vy p = (rand s (drawn s + 3) - 0.5) * flowSpeed (options s)"
    by (simp add: createParticle_unfold setPhaseProperties_fields)
  from t p c v show ?thesis by blast
qed

end
